theory Spec2Isabelle
  imports Main "HOL-Library.Word" "HOL-Library.Log_Nat"
begin

unbundle bit_operations_syntax

section \<open>Machine types\<close>

text \<open>
  Go's \<open>int64\<close> and \<open>uint32\<close> are words: \<open>+\<close> and \<open>-\<close> wrap around, the
  comparisons of \<open>int64\<close> are the signed ones (\<open><s\<close>, \<open>\<le>s\<close>). Go's \<open>int\<close> is taken
  at its 64-bit width (amd64, arm64). A byte slice is a list of bytes.
\<close>

type_synonym int64 = "64 word"
type_synonym goint = "64 word"
type_synonym int32 = "32 word"
type_synonym uint32 = "32 word"
type_synonym bytes = "8 word list"

text \<open>The integers that an \<open>int64\<close> holds.\<close>

definition int64_range :: "int \<Rightarrow> bool" where
  "int64_range k \<longleftrightarrow> - (2 ^ 63) \<le> k \<and> k < 2 ^ 63"

section \<open>Errors\<close>

text \<open>
  One constructor for each \<open>errors.New\<close> of the sources, one for an error handed up from
  a library, the node or the store, and one each for the
  panics of a nil pointer dereference and of an index out of range.
\<close>

datatype error =
    AmountMustBePositive
  | InsufficientChannelCapacity
  | ChannelNotOpen
  | CannotCloseNotOpen
  | WrongNumberOfInputs
  | CannotFindUtxo
  | CannotUseCoinbase
  | WrongNumberOfAddresses
  | BadAddress
  | TooFewConfirmations
  | TooManyConfirmations
  | WrongNet
  | UnsupportedOutputType
  | External string
  | NilPointer
  | IndexOutOfRange

section \<open>Library types: wire transactions and scripts\<close>

text \<open>The fields of btcd's \<open>wire.MsgTx\<close> that the sources read or write.\<close>

record OutPoint =
  Hash :: bytes
  Index :: uint32

record TxIn =
  PreviousOutPoint :: OutPoint
  SignatureScript :: bytes
  Sequence :: uint32

record TxOut =
  Value :: int64
  PkScript :: bytes

record MsgTx =
  TxVersion :: int32
  TxIn :: "TxIn list"
  TxOut :: "TxOut list"
  LockTime :: uint32

text \<open>\<open>wire.NewMsgTx(version)\<close>, \<open>tx.AddTxIn\<close> and \<open>tx.AddTxOut\<close>.\<close>

definition NewMsgTx :: "int32 \<Rightarrow> MsgTx" where
  "NewMsgTx v = \<lparr> TxVersion = v, TxIn = [], TxOut = [], LockTime = 0 \<rparr>"

definition AddTxIn :: "MsgTx \<Rightarrow> TxIn \<Rightarrow> MsgTx" where
  "AddTxIn tx ti = tx\<lparr> TxIn := TxIn tx @ [ti] \<rparr>"

definition AddTxOut :: "MsgTx \<Rightarrow> TxOut \<Rightarrow> MsgTx" where
  "AddTxOut tx to = tx\<lparr> TxOut := TxOut tx @ [to] \<rparr>"

text \<open>
  A \<open>txscript.ScriptBuilder\<close> is the list of the calls made on it, in order; its
  \<open>Script()\<close> is a library function of that list.
\<close>

datatype script_item = AddOp nat | AddInt64 int64 | AddData bytes

definition OP_FALSE :: nat where "OP_FALSE = 0"
definition OP_TRUE :: nat where "OP_TRUE = 81"
definition OP_IF :: nat where "OP_IF = 99"
definition OP_ELSE :: nat where "OP_ELSE = 103"
definition OP_ENDIF :: nat where "OP_ENDIF = 104"
definition OP_DROP :: nat where "OP_DROP = 117"
definition OP_DUP :: nat where "OP_DUP = 118"
definition OP_EQUALVERIFY :: nat where "OP_EQUALVERIFY = 136"
definition OP_HASH160 :: nat where "OP_HASH160 = 169"
definition OP_CHECKSIG :: nat where "OP_CHECKSIG = 172"
definition OP_CHECKMULTISIG :: nat where "OP_CHECKMULTISIG = 174"
definition OP_CHECKLOCKTIMEVERIFY :: nat where "OP_CHECKLOCKTIMEVERIFY = 177"
definition OP_CHECKSEQUENCEVERIFY :: nat where "OP_CHECKSEQUENCEVERIFY = 178"
definition SigHashAll :: nat where "SigHashAll = 1"

text \<open>A decoded \<open>btcutil.Address\<close>, as far as the type switch of the sources looks.\<close>

datatype Address = AddressPubKeyHash bytes | AddressScriptHash bytes | AddressOther bytes

section \<open>channels.go: the shared state\<close>

type_synonym Status = int

definition StatusNotStarted :: Status where "StatusNotStarted = 1"
definition StatusPreInfoGathered :: Status where "StatusPreInfoGathered = 2"
definition StatusOpen :: Status where "StatusOpen = 3"
definition StatusClosing :: Status where "StatusClosing = 4"
definition StatusClosed :: Status where "StatusClosed = 5"

definition defaultTimeout :: int64 where "defaultTimeout = 3"

text \<open>
  \<open>*chaincfg.Params\<close>, \<open>*btcutil.AddressPubKey\<close> and \<open>*btcec.PrivateKey\<close> are
  pointers to library values: \<open>None\<close> is nil. The network is known by its name, a public
  key address by its serialized key, a private key by its bytes.
\<close>

type_synonym Params = string
type_synonym AddressPubKey = bytes
type_synonym PrivateKey = bytes

record SharedState =
  Version :: goint
  Net :: "Params option"
  Timeout :: int64
  Fee :: int64
  Status :: Status
  SenderPubKey :: "AddressPubKey option"
  ReceiverPubKey :: "AddressPubKey option"
  SenderOutput :: string
  ReceiverOutput :: string
  FundingTxID :: string
  FundingVout :: uint32
  FundingAmount :: int64
  BlockHeight :: goint
  Balance :: int64
  Count :: goint
  SenderSig :: bytes

text \<open>\<open>validateAmount\<close> returns Go's pair \<open>(int64, error)\<close>; \<open>None\<close> is the nil error.\<close>

definition validateAmount :: "SharedState \<Rightarrow> int64 \<Rightarrow> int64 \<times> error option" where
  "validateAmount ss amount =
     (if amount \<le>s 0 then (Balance ss, Some AmountMustBePositive)
      else let newBalance = Balance ss + amount in
        if FundingAmount ss <s newBalance + Fee ss
        then (Balance ss, Some InsufficientChannelCapacity)
        else (newBalance, None))"

definition DefaultState :: "Params option \<Rightarrow> SharedState" where
  "DefaultState net =
     \<lparr> Version = 1, Net = net, Timeout = defaultTimeout, Fee = 75000,
       Status = StatusNotStarted,
       SenderPubKey = None, ReceiverPubKey = None,
       SenderOutput = [], ReceiverOutput = [],
       FundingTxID = [], FundingVout = 0, FundingAmount = 0, BlockHeight = 0,
       Balance = 0, Count = 0, SenderSig = [] \<rparr>"

section \<open>The libraries and the missing script functions, as parameters\<close>

text \<open>
  The sources call btcd and btcutil for hashing, script encoding, signing, serialization
  and script execution. Each of these calls is a field of \<open>env\<close>, so that every theorem
  holds whatever the libraries compute:
  \<^item> \<open>NewHashFromStr\<close>: \<open>chainhash.NewHashFromStr\<close>;
  \<^item> \<open>ScriptAddress\<close>: \<open>addr.ScriptAddress()\<close> of a public key address, the
    serialized public key;
  \<^item> \<open>PubKeyHash\<close>: \<open>addr.AddressPubKeyHash().ScriptAddress()\<close>;
  \<^item> \<open>PayToPubKeyHash\<close>: \<open>txscript.PayToAddrScript(addr.AddressPubKeyHash())\<close>, the
    P2PKH script of a public key;
  \<^item> \<open>NewAddressScriptHash\<close>: \<open>btcutil.NewAddressScriptHash\<close>, the address being
    known by its \<open>String()\<close>;
  \<^item> \<open>PayToScriptHash\<close>: \<open>txscript.PayToAddrScript\<close> of such an address;
  \<^item> \<open>Script\<close>: \<open>ScriptBuilder.Script()\<close>;
  \<^item> \<open>RawTxInSignature\<close>, \<open>Serialize\<close>, \<open>BtcDecode\<close>: the functions of these
    names;
  \<^item> \<open>Execute\<close>: \<open>txscript.NewEngine(pkscript, &tx, 0, 0, nil)\<close> followed by
    \<open>engine.Execute()\<close>, \<open>None\<close> when neither returns an error;
  \<^item> \<open>DecodeAddress\<close>, \<open>IsForNet\<close>: \<open>btcutil.DecodeAddress\<close> and
    \<open>a.IsForNet(net)\<close>;
  \<^item> \<open>NewAddressPubKey\<close>: \<open>btcutil.NewAddressPubKey(pk.SerializeCompressed(), net)\<close>
    of the public key of a private key.

  channels.go calls \<open>GetClosureTx(balance)\<close> and
  \<open>GetClosureTxSigned(balance, senderSig, privKey)\<close>; scripts.go holds these two
  functions with other parameters (no balance, and the receiver's signature in place of
  its key). The functions that channels.go calls are the fields \<open>GetClosureTxAt\<close> and
  \<open>GetClosureTxSignedAt\<close>; they read the state and do not write it.
\<close>

record env =
  NewHashFromStr :: "string \<Rightarrow> error + bytes"
  ScriptAddress :: "AddressPubKey \<Rightarrow> bytes"
  PubKeyHash :: "AddressPubKey \<Rightarrow> bytes"
  PayToPubKeyHash :: "AddressPubKey \<Rightarrow> error + bytes"
  NewAddressScriptHash :: "bytes \<Rightarrow> Params option \<Rightarrow> error + string"
  PayToScriptHash :: "string \<Rightarrow> error + bytes"
  Script :: "script_item list \<Rightarrow> error + bytes"
  RawTxInSignature :: "MsgTx \<Rightarrow> nat \<Rightarrow> bytes \<Rightarrow> nat \<Rightarrow> PrivateKey option \<Rightarrow> error + bytes"
  Serialize :: "MsgTx \<Rightarrow> error + bytes"
  BtcDecode :: "bytes \<Rightarrow> nat \<Rightarrow> error + MsgTx"
  Execute :: "bytes \<Rightarrow> MsgTx \<Rightarrow> error option"
  DecodeAddress :: "string \<Rightarrow> Params option \<Rightarrow> error + Address"
  IsForNet :: "Address \<Rightarrow> Params option \<Rightarrow> bool"
  NewAddressPubKey :: "PrivateKey option \<Rightarrow> Params option \<Rightarrow> error + AddressPubKey"
  GetClosureTxAt :: "SharedState \<Rightarrow> int64 \<Rightarrow> error + MsgTx"
  GetClosureTxSignedAt :: "SharedState \<Rightarrow> int64 \<Rightarrow> bytes \<Rightarrow> PrivateKey option \<Rightarrow> error + bytes"

section \<open>scripts.go\<close>

definition fundingTxScript ::
  "env \<Rightarrow> AddressPubKey option \<Rightarrow> AddressPubKey option \<Rightarrow> int64 \<Rightarrow> error + bytes" where
  "fundingTxScript l senderPubKey receiverPubKey timeout =
     (case senderPubKey of
        None \<Rightarrow> Inl NilPointer
      | Some spk \<Rightarrow>
      (case receiverPubKey of
        None \<Rightarrow> Inl NilPointer
      | Some rpk \<Rightarrow>
        Script l
          [AddOp OP_IF,
           AddInt64 2,
           AddData (ScriptAddress l spk),
           AddData (ScriptAddress l rpk),
           AddInt64 2,
           AddOp OP_CHECKMULTISIG,
           AddOp OP_ELSE,
           AddInt64 timeout,
           AddOp OP_CHECKSEQUENCEVERIFY,
           AddOp OP_DROP,
           AddOp OP_DUP,
           AddOp OP_HASH160,
           AddData (PubKeyHash l spk),
           AddOp OP_EQUALVERIFY,
           AddOp OP_CHECKSIG,
           AddOp OP_ENDIF]))"

definition GetFundingScript :: "env \<Rightarrow> SharedState \<Rightarrow> error + (bytes \<times> string)" where
  "GetFundingScript l s =
     (case fundingTxScript l (SenderPubKey s) (ReceiverPubKey s) (Timeout s) of
        Inl err \<Rightarrow> Inl err
      | Inr script \<Rightarrow>
          (case NewAddressScriptHash l script (Net s) of
             Inl err \<Rightarrow> Inl err
           | Inr scriptHash \<Rightarrow> Inr (script, scriptHash)))"

text \<open>
  The input is a struct literal that names the previous outpoint only: its signature
  script is empty and its sequence is 0.
\<close>

definition spendFundingTx :: "env \<Rightarrow> SharedState \<Rightarrow> error + MsgTx" where
  "spendFundingTx l s =
     (case NewHashFromStr l (FundingTxID s) of
        Inl err \<Rightarrow> Inl err
      | Inr txid \<Rightarrow>
          Inr (AddTxIn (NewMsgTx 2)
                 \<lparr> PreviousOutPoint = \<lparr> Hash = txid, Index = FundingVout s \<rparr>,
                   SignatureScript = [], Sequence = 0 \<rparr>))"

definition sendToAddress :: "env \<Rightarrow> int64 \<Rightarrow> AddressPubKey option \<Rightarrow> error + TxOut" where
  "sendToAddress l amount addr =
     (case addr of
        None \<Rightarrow> Inl NilPointer
      | Some a \<Rightarrow>
          (case PayToPubKeyHash l a of
             Inl err \<Rightarrow> Inl err
           | Inr pkscript \<Rightarrow> Inr \<lparr> Value = amount, PkScript = pkscript \<rparr>))"

definition GetClosureTx :: "env \<Rightarrow> SharedState \<Rightarrow> error + MsgTx" where
  "GetClosureTx l s =
     (let receiveAmount = Balance s;
          senderAmount = FundingAmount s - Balance s - Fee s
      in case spendFundingTx l s of
           Inl err \<Rightarrow> Inl err
         | Inr tx \<Rightarrow>
             (case (if 0 <s receiveAmount
                    then (case sendToAddress l receiveAmount (ReceiverPubKey s) of
                            Inl err \<Rightarrow> Inl err
                          | Inr txout \<Rightarrow> Inr (AddTxOut tx txout))
                    else Inr tx) of
                Inl err \<Rightarrow> Inl err
              | Inr tx1 \<Rightarrow>
                  (if 0 <s senderAmount
                   then (case sendToAddress l senderAmount (SenderPubKey s) of
                           Inl err \<Rightarrow> Inl err
                         | Inr txout \<Rightarrow> Inr (AddTxOut tx1 txout))
                   else Inr tx1)))"

text \<open>
  \<open>tx.TxIn[0].SignatureScript = v\<close> and \<open>tx.TxIn[0].Sequence = v\<close>: a panic when the
  transaction has no input.
\<close>

definition setSignatureScript0 :: "MsgTx \<Rightarrow> bytes \<Rightarrow> error + MsgTx" where
  "setSignatureScript0 tx v =
     (case TxIn tx of
        [] \<Rightarrow> Inl IndexOutOfRange
      | ti # tis \<Rightarrow> Inr (tx\<lparr> TxIn := ti\<lparr> SignatureScript := v \<rparr> # tis \<rparr>))"

definition setSequence0 :: "MsgTx \<Rightarrow> uint32 \<Rightarrow> error + MsgTx" where
  "setSequence0 tx v =
     (case TxIn tx of
        [] \<Rightarrow> Inl IndexOutOfRange
      | ti # tis \<Rightarrow> Inr (tx\<lparr> TxIn := ti\<lparr> Sequence := v \<rparr> # tis \<rparr>))"

definition GetClosureTxSigned :: "env \<Rightarrow> SharedState \<Rightarrow> bytes \<Rightarrow> bytes \<Rightarrow> error + bytes" where
  "GetClosureTxSigned l s senderSig receiverSig =
     (case GetClosureTx l s of
        Inl err \<Rightarrow> Inl err
      | Inr tx \<Rightarrow>
      (case GetFundingScript l s of
        Inl err \<Rightarrow> Inl err
      | Inr (script, _) \<Rightarrow>
      (case Script l [AddOp OP_FALSE, AddData senderSig, AddData receiverSig,
                      AddOp OP_TRUE, AddData script] of
        Inl err \<Rightarrow> Inl err
      | Inr finalScript \<Rightarrow>
      (case setSignatureScript0 tx finalScript of
        Inl err \<Rightarrow> Inl err
      | Inr tx1 \<Rightarrow> Serialize l tx1))))"

text \<open>
  \<open>GetRefundTxSigned\<close> in two steps: \<open>refundTx\<close> is the transaction as it stands
  before \<open>tx.Serialize\<close>, \<open>GetRefundTxSigned\<close> serializes it.
\<close>

definition refundTx :: "env \<Rightarrow> SharedState \<Rightarrow> PrivateKey option \<Rightarrow> error + MsgTx" where
  "refundTx l s privKey =
     (case spendFundingTx l s of
        Inl err \<Rightarrow> Inl err
      | Inr tx \<Rightarrow>
      (let amount = FundingAmount s - Fee s in
      (case sendToAddress l amount (SenderPubKey s) of
        Inl err \<Rightarrow> Inl err
      | Inr txout \<Rightarrow>
      (case setSequence0 (AddTxOut tx txout) (ucast (Timeout s)) of
        Inl err \<Rightarrow> Inl err
      | Inr tx1 \<Rightarrow>
      (case GetFundingScript l s of
        Inl err \<Rightarrow> Inl err
      | Inr (script, _) \<Rightarrow>
      (case RawTxInSignature l tx1 0 script SigHashAll privKey of
        Inl err \<Rightarrow> Inl err
      | Inr sig \<Rightarrow>
      (case SenderPubKey s of
        None \<Rightarrow> Inl NilPointer
      | Some spk \<Rightarrow>
      (case Script l [AddData sig, AddData (ScriptAddress l spk), AddOp OP_FALSE,
                      AddData script] of
        Inl err \<Rightarrow> Inl err
      | Inr finalScript \<Rightarrow> setSignatureScript0 tx1 finalScript))))))))"

definition GetRefundTxSigned :: "env \<Rightarrow> SharedState \<Rightarrow> PrivateKey option \<Rightarrow> error + bytes" where
  "GetRefundTxSigned l s privKey =
     (case refundTx l s privKey of Inl err \<Rightarrow> Inl err | Inr tx \<Rightarrow> Serialize l tx)"

definition validateTx :: "env \<Rightarrow> SharedState \<Rightarrow> bytes \<Rightarrow> error option" where
  "validateTx l s rawTx =
     (case fundingTxScript l (SenderPubKey s) (ReceiverPubKey s) (Timeout s) of
        Inl err \<Rightarrow> Some err
      | Inr script \<Rightarrow>
      (case NewAddressScriptHash l script (Net s) of
        Inl err \<Rightarrow> Some err
      | Inr addr \<Rightarrow>
      (case PayToScriptHash l addr of
        Inl err \<Rightarrow> Some err
      | Inr pkscript \<Rightarrow>
      (case BtcDecode l rawTx 2 of
        Inl err \<Rightarrow> Some err
      | Inr tx \<Rightarrow>
          if length (TxIn tx) \<noteq> 1 then Some WrongNumberOfInputs
          else Execute l pkscript tx))))"

section \<open>channels.go: the two roles\<close>

text \<open>
  A method with a pointer receiver returns the role as the call leaves it, next to Go's
  result: an \<open>error option\<close> for \<open>error\<close>, a sum for \<open>([]byte, error)\<close>.
\<close>

definition checkSupportedAddress :: "env \<Rightarrow> Params option \<Rightarrow> string \<Rightarrow> error option" where
  "checkSupportedAddress l net addr =
     (case DecodeAddress l addr net of
        Inl err \<Rightarrow> Some err
      | Inr a \<Rightarrow>
          if \<not> IsForNet l a net then Some WrongNet
          else (case a of
                  AddressPubKeyHash _ \<Rightarrow> None
                | AddressScriptHash _ \<Rightarrow> None
                | AddressOther _ \<Rightarrow> Some UnsupportedOutputType))"

record Sender =
  State :: SharedState
  PrivKey :: "PrivateKey option"

definition NewSender :: "SharedState \<Rightarrow> PrivateKey option \<Rightarrow> error + Sender" where
  "NewSender state privKey = Inr \<lparr> Sender.State = state, Sender.PrivKey = privKey \<rparr>"

definition derivePubKey :: "env \<Rightarrow> PrivateKey option \<Rightarrow> Params option \<Rightarrow> error + AddressPubKey" where
  "derivePubKey l privKey net = NewAddressPubKey l privKey net"

definition OpenChannel :: "env \<Rightarrow> Params option \<Rightarrow> PrivateKey option \<Rightarrow> string \<Rightarrow> error + Sender" where
  "OpenChannel l net privKey outputAddr =
     (case checkSupportedAddress l net outputAddr of
        Some err \<Rightarrow> Inl err
      | None \<Rightarrow>
          (case derivePubKey l privKey net of
             Inl err \<Rightarrow> Inl err
           | Inr pubKey \<Rightarrow>
               Inr \<lparr> Sender.State =
                       (DefaultState net)\<lparr> SenderPubKey := Some pubKey,
                                            SenderOutput := outputAddr \<rparr>,
                     Sender.PrivKey = privKey \<rparr>))"

definition ReceivedPubKey ::
  "env \<Rightarrow> Sender \<Rightarrow> AddressPubKey option \<Rightarrow> string \<Rightarrow> error option \<times> Sender" where
  "ReceivedPubKey l s pubKey receiverOutput =
     (case checkSupportedAddress l (Net (Sender.State s)) receiverOutput of
        Some err \<Rightarrow> (Some err, s)
      | None \<Rightarrow>
          (None, s\<lparr> Sender.State :=
                      (Sender.State s)\<lparr> ReceiverPubKey := pubKey,
                                          ReceiverOutput := receiverOutput \<rparr> \<rparr>))"

record Receiver =
  State :: SharedState
  PrivKey :: "PrivateKey option"

definition NewReceiver :: "SharedState \<Rightarrow> PrivateKey option \<Rightarrow> error + Receiver" where
  "NewReceiver state privKey = Inr \<lparr> Receiver.State = state, Receiver.PrivKey = privKey \<rparr>"

definition AcceptChannel :: "env \<Rightarrow> SharedState \<Rightarrow> PrivateKey option \<Rightarrow> error + Receiver" where
  "AcceptChannel l state privKey =
     (case checkSupportedAddress l (Net state) (SenderOutput state) of
        Some err \<Rightarrow> Inl err
      | None \<Rightarrow>
          (case derivePubKey l privKey (Net state) of
             Inl err \<Rightarrow> Inl err
           | Inr pubKey \<Rightarrow>
               Inr \<lparr> Receiver.State =
                       state\<lparr> ReceiverPubKey := Some pubKey,
                              Status := StatusPreInfoGathered \<rparr>,
                     Receiver.PrivKey = privKey \<rparr>))"

definition signBalance :: "env \<Rightarrow> Sender \<Rightarrow> int64 \<Rightarrow> error + bytes" where
  "signBalance l s balance =
     (case GetClosureTxAt l (Sender.State s) balance of
        Inl err \<Rightarrow> Inl err
      | Inr tx \<Rightarrow>
          (case GetFundingScript l (Sender.State s) of
             Inl err \<Rightarrow> Inl err
           | Inr (script, _) \<Rightarrow>
               RawTxInSignature l tx 0 script SigHashAll (Sender.PrivKey s)))"

definition FundingTxMined ::
  "env \<Rightarrow> Sender \<Rightarrow> string \<Rightarrow> uint32 \<Rightarrow> int64 \<Rightarrow> goint \<Rightarrow> (error + bytes) \<times> Sender" where
  "FundingTxMined l s txid vout amount height =
     (let s1 = s\<lparr> Sender.State :=
                    (Sender.State s)\<lparr> FundingTxID := txid,
                                        FundingVout := vout,
                                        FundingAmount := amount,
                                        BlockHeight := height,
                                        Status := StatusOpen \<rparr> \<rparr>
      in (signBalance l s1 0, s1))"

definition validateSenderSig :: "env \<Rightarrow> Receiver \<Rightarrow> int64 \<Rightarrow> bytes \<Rightarrow> error option" where
  "validateSenderSig l r balance senderSig =
     (case GetClosureTxSignedAt l (Receiver.State r) balance senderSig (Receiver.PrivKey r) of
        Inl err \<Rightarrow> Some err
      | Inr rawTx \<Rightarrow>
          (case validateTx l (Receiver.State r) rawTx of
             Some err \<Rightarrow> Some err
           | None \<Rightarrow> None))"

definition Receiver_Open ::
  "env \<Rightarrow> Receiver \<Rightarrow> string \<Rightarrow> uint32 \<Rightarrow> int64 \<Rightarrow> goint \<Rightarrow> bytes \<Rightarrow> error option \<times> Receiver" where
  "Receiver_Open l r txid vout amount height senderSig =
     (let r1 = r\<lparr> Receiver.State :=
                    (Receiver.State r)\<lparr> FundingTxID := txid,
                                          FundingVout := vout,
                                          FundingAmount := amount,
                                          BlockHeight := height \<rparr> \<rparr>
      in case validateSenderSig l r1 0 senderSig of
           Some err \<Rightarrow> (Some err, r1)
         | None \<Rightarrow>
             (None, r1\<lparr> Receiver.State :=
                          (Receiver.State r1)\<lparr> SenderSig := senderSig,
                                                 Status := StatusOpen \<rparr> \<rparr>))"

definition PrepareSend :: "env \<Rightarrow> Sender \<Rightarrow> int64 \<Rightarrow> (error + bytes) \<times> Sender" where
  "PrepareSend l s amount =
     (case validateAmount (Sender.State s) amount of
        (_, Some err) \<Rightarrow> (Inl err, s)
      | (newBalance, None) \<Rightarrow> (signBalance l s newBalance, s))"

definition Receiver_Send :: "env \<Rightarrow> Receiver \<Rightarrow> int64 \<Rightarrow> bytes \<Rightarrow> error option \<times> Receiver" where
  "Receiver_Send l r amount senderSig =
     (if Status (Receiver.State r) \<noteq> StatusOpen then (Some ChannelNotOpen, r)
      else case validateAmount (Receiver.State r) amount of
             (_, Some err) \<Rightarrow> (Some err, r)
           | (newBalance, None) \<Rightarrow>
               (case validateSenderSig l r newBalance senderSig of
                  Some err \<Rightarrow> (Some err, r)
                | None \<Rightarrow>
                    (None, r\<lparr> Receiver.State :=
                                (Receiver.State r)\<lparr> Count := Count (Receiver.State r) + 1,
                                                      Balance := newBalance,
                                                      SenderSig := senderSig \<rparr> \<rparr>)))"

definition SendAccepted :: "Sender \<Rightarrow> int64 \<Rightarrow> error option \<times> Sender" where
  "SendAccepted s amount =
     (None, s\<lparr> Sender.State :=
                 (Sender.State s)\<lparr> Count := Count (Sender.State s) + 1,
                                     Balance := Balance (Sender.State s) + amount \<rparr> \<rparr>)"

definition Receiver_Close :: "env \<Rightarrow> Receiver \<Rightarrow> (error + bytes) \<times> Receiver" where
  "Receiver_Close l r =
     (if Status (Receiver.State r) \<noteq> StatusOpen \<and> Status (Receiver.State r) \<noteq> StatusClosing
      then (Inl CannotCloseNotOpen, r)
      else case GetClosureTxSignedAt l (Receiver.State r) (Balance (Receiver.State r))
                  (SenderSig (Receiver.State r)) (Receiver.PrivKey r) of
             Inl err \<Rightarrow> (Inl err, r)
           | Inr rawTx \<Rightarrow>
               (Inr rawTx,
                r\<lparr> Receiver.State := (Receiver.State r)\<lparr> Status := StatusClosing \<rparr> \<rparr>))"

definition Sender_CloseMined :: "Sender \<Rightarrow> Sender" where
  "Sender_CloseMined s = s\<lparr> Sender.State := (Sender.State s)\<lparr> Status := StatusClosed \<rparr> \<rparr>"

definition Receiver_CloseMined :: "Receiver \<Rightarrow> Receiver" where
  "Receiver_CloseMined r =
     r\<lparr> Receiver.State := (Receiver.State r)\<lparr> Status := StatusClosed \<rparr> \<rparr>"

definition Refund :: "env \<Rightarrow> Sender \<Rightarrow> (error + bytes) \<times> Sender" where
  "Refund l s = (GetRefundTxSigned l (Sender.State s) (Sender.PrivKey s), s)"

text \<open>
  The calls a sender can make on its role, and the role as each call leaves it.
\<close>

datatype sender_call =
    CallReceivedPubKey "AddressPubKey option" string
  | CallFundingTxMined string uint32 int64 goint
  | CallPrepareSend int64
  | CallSendAccepted int64
  | CallCloseMined
  | CallRefund

fun Sender_call :: "env \<Rightarrow> sender_call \<Rightarrow> Sender \<Rightarrow> Sender" where
  "Sender_call l (CallReceivedPubKey pubKey receiverOutput) s =
     snd (ReceivedPubKey l s pubKey receiverOutput)"
| "Sender_call l (CallFundingTxMined txid vout amount height) s =
     snd (FundingTxMined l s txid vout amount height)"
| "Sender_call l (CallPrepareSend amount) s = snd (PrepareSend l s amount)"
| "Sender_call l (CallSendAccepted amount) s = snd (SendAccepted s amount)"
| "Sender_call l CallCloseMined s = Sender_CloseMined s"
| "Sender_call l CallRefund s = snd (Refund l s)"

section \<open>receiver.go: the orchestrator's Open\<close>

subsection \<open>float64\<close>

text \<open>
  A finite \<open>float64\<close> is a pair \<open>(m, e)\<close> of integers that stands for \<open>m * 2 ^ e\<close>.
  A product is the exact product rounded to 53 significant bits, ties to even. The
  exponent is not bounded: a product beyond the range of \<open>float64\<close> is beyond the range
  of \<open>int64\<close> too, and a product below the normal range is truncated to 0 either way.
  \<open>int64(f)\<close> truncates towards zero; out of the range of \<open>int64\<close> the result is that of
  amd64, the smallest \<open>int64\<close>.
\<close>

type_synonym float64 = "int \<times> int"

definition f64_value :: "float64 \<Rightarrow> rat" where
  "f64_value f =
     (if 0 \<le> snd f then of_int (fst f * 2 ^ nat (snd f))
      else of_int (fst f) / of_int (2 ^ nat (- snd f)))"

definition roundTiesEven :: "int \<Rightarrow> int \<Rightarrow> int" where
  "roundTiesEven n d =
     (let q = n div d; r = n mod d
      in if 2 * r < d then q
         else if d < 2 * r then q + 1
         else if even q then q else q + 1)"

definition f64_round :: "float64 \<Rightarrow> float64" where
  "f64_round f =
     (let k = bitlen \<bar>fst f\<bar> - 53
      in if k \<le> 0 then f
         else (sgn (fst f) * roundTiesEven \<bar>fst f\<bar> (2 ^ nat k), snd f + k))"

definition f64_mul :: "float64 \<Rightarrow> float64 \<Rightarrow> float64" where
  "f64_mul a b = f64_round (fst a * fst b, snd a + snd b)"

definition f64_trunc :: "float64 \<Rightarrow> int" where
  "f64_trunc f =
     (if 0 \<le> snd f then fst f * 2 ^ nat (snd f)
      else sgn (fst f) * (\<bar>fst f\<bar> div 2 ^ nat (- snd f)))"

definition int64_of_float64 :: "float64 \<Rightarrow> int64" where
  "int64_of_float64 f =
     (let t = f64_trunc f
      in if - (2 ^ 63) \<le> t \<and> t < 2 ^ 63 then of_int t else 0x8000000000000000)"

definition f64_1e8 :: float64 where
  "f64_1e8 = (100000000, 0)"

subsection \<open>The node, the store and the request\<close>

text \<open>
  The fields of \<open>btcjson.GetTxOutResult\<close> that \<open>getTxOut\<close> reads; \<open>Addresses\<close> is
  \<open>ScriptPubKey.Addresses\<close>. The node client and the store are interfaces: their calls
  are functions of the arguments. \<open>r.getKey\<close> derives the private key of an index from
  the extended key, in the library. \<open>channels.MinFundingConf\<close> and
  \<open>channels.CloseWindow\<close> are constants that the sources name and do not hold: they are
  parameters of \<open>Orchestrator_Open\<close>.
\<close>

record GetTxOutResult =
  BestBlock :: string
  Confirmations :: int64
  Value :: float64
  Addresses :: "string list"
  Coinbase :: bool

record Client =
  GetTxOut :: "bytes \<Rightarrow> uint32 \<Rightarrow> bool \<Rightarrow> error + GetTxOutResult option"
  GetBlockHeaderVerbose :: "bytes \<Rightarrow> error + int32"

record Record =
  ID :: string
  KeyPath :: goint
  SharedState :: SharedState

record Storage =
  Get :: "string \<Rightarrow> error + Record option"
  Update :: "string \<Rightarrow> SharedState \<Rightarrow> SharedState \<Rightarrow> bytes option \<Rightarrow> error option"

record Orchestrator =
  bc :: Client
  db :: Storage
  getKey :: "goint \<Rightarrow> error + PrivateKey option"

record OpenRequest =
  ID :: string
  TxID :: string
  Vout :: uint32
  SenderSig :: bytes

definition getTxOut ::
  "env \<Rightarrow> Client \<Rightarrow> string \<Rightarrow> uint32 \<Rightarrow> string \<Rightarrow> error + (int64 \<times> goint \<times> string)" where
  "getTxOut l c txid vout addr =
     (case NewHashFromStr l txid of
        Inl err \<Rightarrow> Inl err
      | Inr txhash \<Rightarrow>
      (case GetTxOut c txhash vout False of
        Inl err \<Rightarrow> Inl err
      | Inr None \<Rightarrow> Inl CannotFindUtxo
      | Inr (Some txout) \<Rightarrow>
          if Coinbase txout then Inl CannotUseCoinbase
          else if length (Addresses txout) \<noteq> 1 then Inl WrongNumberOfAddresses
          else if Addresses txout ! 0 \<noteq> addr then Inl BadAddress
          else let value = int64_of_float64 (f64_mul (GetTxOutResult.Value txout) f64_1e8)
               in Inr (value, Confirmations txout, BestBlock txout)))"

definition getHeight :: "env \<Rightarrow> Client \<Rightarrow> string \<Rightarrow> error + int64" where
  "getHeight l c blockhash =
     (case NewHashFromStr l blockhash of
        Inl err \<Rightarrow> Inl err
      | Inr bh \<Rightarrow>
      (case GetBlockHeaderVerbose c bh of
        Inl err \<Rightarrow> Inl err
      | Inr height \<Rightarrow> Inr (scast height)))"

definition get :: "Orchestrator \<Rightarrow> string \<Rightarrow> error + Receiver" where
  "get r ident =
     (case Get (db r) ident of
        Inl err \<Rightarrow> Inl err
      | Inr None \<Rightarrow> Inl NilPointer
      | Inr (Some rec) \<Rightarrow>
      (case getKey r (KeyPath rec) of
        Inl err \<Rightarrow> Inl err
      | Inr privKey \<Rightarrow> NewReceiver (SharedState rec) privKey))"

text \<open>
  \<open>Orchestrator_Open\<close> is \<open>Open\<close> of receiver.go. Next to Go's error it returns the
  calls it made to the role's \<open>Open\<close> and to the store's \<open>Update\<close>, in order.
\<close>

datatype call =
    RoleOpen string uint32 int64 goint bytes
  | DbUpdate string SharedState SharedState

definition Orchestrator_Open ::
  "env \<Rightarrow> goint \<Rightarrow> int64 \<Rightarrow> Orchestrator \<Rightarrow> OpenRequest \<Rightarrow> error option \<times> call list" where
  "Orchestrator_Open l MinFundingConf CloseWindow r req =
     (case get r (OpenRequest.ID req) of
        Inl err \<Rightarrow> (Some err, [])
      | Inr c \<Rightarrow>
      (let prevState = Receiver.State c in
      (case GetFundingScript l (Receiver.State c) of
        Inl err \<Rightarrow> (Some err, [])
      | Inr (_, addr) \<Rightarrow>
      (case getTxOut l (bc r) (TxID req) (Vout req) addr of
        Inl err \<Rightarrow> (Some err, [])
      | Inr (amount, conf, blockHash) \<Rightarrow>
          if conf <s MinFundingConf then (Some TooFewConfirmations, [])
          else let maxConf = Timeout (Receiver.State c) - CloseWindow in
          if maxConf <s conf then (Some TooManyConfirmations, [])
          else
      (case getHeight l (bc r) blockHash of
        Inl err \<Rightarrow> (Some err, [])
      | Inr height \<Rightarrow>
      (let opened = RoleOpen (TxID req) (Vout req) amount height (OpenRequest.SenderSig req) in
      (case Receiver_Open l c (TxID req) (Vout req) amount height (OpenRequest.SenderSig req) of
        (Some err, _) \<Rightarrow> (Some err, [opened])
      | (None, c1) \<Rightarrow>
      (let newState = Receiver.State c1;
           updated = DbUpdate (OpenRequest.ID req) prevState newState in
      (case Update (db r) (OpenRequest.ID req) prevState newState None of
        Some err \<Rightarrow> (Some err, [opened, updated])
      | None \<Rightarrow> (None, [opened, updated]))))))))))"

section \<open>A small instance of the libraries\<close>

text \<open>
  \<open>stub_env\<close> is an instance of \<open>env\<close> on which the definitions can be evaluated. Its
  encodings are short lists of bytes. Its signatures are one byte long: the raw closure
  transaction at a balance is the low byte of the balance followed by the sender's
  signature, and the script engine accepts it when the signature is that byte plus 7.
\<close>

fun stub_item :: "script_item \<Rightarrow> bytes" where
  "stub_item (AddOp n) = [of_nat n]"
| "stub_item (AddInt64 i) = [ucast i]"
| "stub_item (AddData d) = of_nat (length d) # d"

definition stub_decode :: "bytes \<Rightarrow> MsgTx" where
  "stub_decode raw =
     AddTxIn (NewMsgTx 2)
       \<lparr> PreviousOutPoint = \<lparr> Hash = [], Index = 0 \<rparr>,
         SignatureScript = raw, Sequence = 0 \<rparr>"

definition stub_execute :: "bytes \<Rightarrow> MsgTx \<Rightarrow> error option" where
  "stub_execute pkscript tx =
     (case concat (map SignatureScript (TxIn tx)) of
        [b, sg] \<Rightarrow> if sg = b + 7 then None else Some (External ''signature check failed'')
      | _ \<Rightarrow> Some (External ''malformed script''))"

definition stub_env :: env where
  "stub_env =
     \<lparr> NewHashFromStr =
         (\<lambda>s. if length s \<le> 64 then Inr (map (\<lambda>c. of_nat (of_char c)) s)
              else Inl (External ''hash string too long'')),
       ScriptAddress = (\<lambda>k. k),
       PubKeyHash = (\<lambda>k. rev k),
       PayToPubKeyHash = (\<lambda>k. Inr (118 # 169 # rev k @ [136, 172])),
       NewAddressScriptHash =
         (\<lambda>script net. case net of None \<Rightarrow> Inl NilPointer | Some n \<Rightarrow> Inr (''2'' @ n)),
       PayToScriptHash = (\<lambda>a. Inr [169, 135]),
       Script = (\<lambda>items. Inr (concat (map stub_item items))),
       RawTxInSignature =
         (\<lambda>tx idx script hashType key.
            case key of None \<Rightarrow> Inl NilPointer
            | Some k \<Rightarrow> Inr (k @ [of_nat (length (TxOut tx))])),
       Serialize = (\<lambda>tx. Inr (concat (map SignatureScript (TxIn tx)))),
       BtcDecode = (\<lambda>raw pver. Inr (stub_decode raw)),
       Execute = stub_execute,
       DecodeAddress = (\<lambda>a net. Inr (AddressPubKeyHash (map (\<lambda>c. of_nat (of_char c)) a))),
       IsForNet = (\<lambda>a net. True),
       NewAddressPubKey =
         (\<lambda>key net. case key of None \<Rightarrow> Inl NilPointer | Some k \<Rightarrow> Inr (rev k)),
       GetClosureTxAt = (\<lambda>s balance. Inr (NewMsgTx 2)),
       GetClosureTxSignedAt = (\<lambda>s balance senderSig key. Inr (ucast balance # senderSig)) \<rparr>"

text \<open>
  A channel between the keys \<open>[2]\<close> and \<open>[3]\<close> on regtest, funded with 1000000 satoshi
  at the default fee of 75000, and the receiver's role on it.
\<close>

definition stub_state :: "Status \<Rightarrow> SharedState" where
  "stub_state st =
     (DefaultState (Some ''regtest''))
       \<lparr> Status := st, SenderPubKey := Some [2], ReceiverPubKey := Some [3],
         FundingTxID := ''ab'', FundingVout := 1, FundingAmount := 1000000 \<rparr>"

definition stub_receiver :: "Status \<Rightarrow> Receiver" where
  "stub_receiver st = \<lparr> Receiver.State = stub_state st, Receiver.PrivKey = Some [9] \<rparr>"

definition stub_sender :: "Status \<Rightarrow> Sender" where
  "stub_sender st = \<lparr> Sender.State = stub_state st, Sender.PrivKey = Some [8] \<rparr>"

text \<open>
  A node that answers every \<open>GetTxOut\<close> with the same reply and knows every block at
  height 10, a store that holds the same state under every id and accepts every update,
  and the orchestrator over them. The funding address of \<open>stub_state\<close> under
  \<open>stub_env\<close> is \<open>''2regtest''\<close>.
\<close>

definition stub_txout :: "float64 \<Rightarrow> int64 \<Rightarrow> GetTxOutResult" where
  "stub_txout v conf =
     \<lparr> BestBlock = ''bb'', Confirmations = conf, Value = v,
       Addresses = [''2regtest''], Coinbase = False \<rparr>"

definition stub_client :: "GetTxOutResult option \<Rightarrow> Client" where
  "stub_client reply =
     \<lparr> GetTxOut = (\<lambda>txhash vout mempool. Inr reply),
       GetBlockHeaderVerbose = (\<lambda>bh. Inr 10) \<rparr>"

definition stub_storage :: "SharedState \<Rightarrow> Storage" where
  "stub_storage st =
     \<lparr> Get = (\<lambda>ident. Inr (Some \<lparr> Record.ID = ident, KeyPath = 0, SharedState = st \<rparr>)),
       Update = (\<lambda>ident prev new payment. None) \<rparr>"

definition stub_orchestrator :: "SharedState \<Rightarrow> GetTxOutResult option \<Rightarrow> Orchestrator" where
  "stub_orchestrator st reply =
     \<lparr> bc = stub_client reply, db = stub_storage st, getKey = (\<lambda>n. Inr (Some [9])) \<rparr>"

definition stub_request :: "bytes \<Rightarrow> OpenRequest" where
  "stub_request sg =
     \<lparr> OpenRequest.ID = ''ch'', TxID = ''ab'', Vout = 1, OpenRequest.SenderSig = sg \<rparr>"

section \<open>Amount validation\<close>

lemma not_sle_iff_sless: "(\<not> a \<le>s b) = (b <s (a :: 'a::len word))"
  by (simp add: word_sle_eq word_sless_alt not_le)

lemma not_sless_iff_sle: "(\<not> a <s b) = (b \<le>s (a :: 'a::len word))"
  by (simp add: word_sle_eq word_sless_alt not_less)

lemma sint_add64:
  "int64_range (sint a + sint b) \<Longrightarrow> sint (a + b :: int64) = sint a + sint b"
  by (simp add: int64_range_def sint_word_ariths signed_take_bit_int_eq_self)

lemma sint_sub64:
  "int64_range (sint a - sint b) \<Longrightarrow> sint (a - b :: int64) = sint a - sint b"
  by (simp add: int64_range_def sint_word_ariths signed_take_bit_int_eq_self)

text \<open>
  What \<open>validateAmount\<close> computes, in its own arithmetic: the sums are those of
  \<open>int64\<close>, which wrap around, and the order is the signed one.
\<close>

lemma validateAmount_int64:
  "(validateAmount ss amount = (Balance ss + amount, None)
      \<longleftrightarrow> 0 <s amount \<and> Balance ss + amount + Fee ss \<le>s FundingAmount ss)
   \<and> (snd (validateAmount ss amount) = None
      \<longleftrightarrow> 0 <s amount \<and> Balance ss + amount + Fee ss \<le>s FundingAmount ss)
   \<and> (amount \<le>s 0 \<longrightarrow>
        validateAmount ss amount = (Balance ss, Some AmountMustBePositive))
   \<and> (0 <s amount \<and> FundingAmount ss <s Balance ss + amount + Fee ss \<longrightarrow>
        validateAmount ss amount = (Balance ss, Some InsufficientChannelCapacity))"
  by (simp add: validateAmount_def Let_def not_sle_iff_sless not_sless_iff_sle)

text \<open>
  As long as \<open>balance + amount\<close> and \<open>balance + amount + fee\<close> are in the range of
  \<open>int64\<close>, the sums and the order are those of the integers: \<open>validateAmount\<close>
  passes exactly when \<open>amount > 0\<close> and \<open>balance + amount + fee \<le> fundingAmount\<close>,
  and it returns \<open>balance + amount\<close> then.
\<close>

lemma validateAmount_in_range:
  assumes "int64_range (sint (Balance ss) + sint amount)"
    and "int64_range (sint (Balance ss) + sint amount + sint (Fee ss))"
  shows "(snd (validateAmount ss amount) = None \<longleftrightarrow>
            0 < sint amount
            \<and> sint (Balance ss) + sint amount + sint (Fee ss) \<le> sint (FundingAmount ss))
         \<and> (snd (validateAmount ss amount) = None \<longrightarrow>
              sint (fst (validateAmount ss amount)) = sint (Balance ss) + sint amount)
         \<and> (sint amount \<le> 0 \<longrightarrow>
              snd (validateAmount ss amount) = Some AmountMustBePositive)
         \<and> (0 < sint amount
              \<and> sint (FundingAmount ss) < sint (Balance ss) + sint amount + sint (Fee ss) \<longrightarrow>
              snd (validateAmount ss amount) = Some InsufficientChannelCapacity)"
proof -
  have a: "sint (Balance ss + amount) = sint (Balance ss) + sint amount"
    using assms(1) by (rule sint_add64)
  have b: "sint (Balance ss + amount + Fee ss)
             = sint (Balance ss) + sint amount + sint (Fee ss)"
    using assms(2) sint_add64 [of "Balance ss + amount" "Fee ss"] by (simp add: a)
  show ?thesis
    using a b by (auto simp: validateAmount_def Let_def word_sle_eq word_sless_alt)
qed

text \<open>
  C3. The claim is about the integers: for every amount, \<open>validateAmount\<close> passes
  exactly when \<open>amount > 0\<close> and \<open>balance + amount + fee \<le> fundingAmount\<close>, and
  fails for insufficient capacity when \<open>balance + amount + fee > fundingAmount\<close>. The
  code does not keep it when a sum overflows. On a channel funded with 1000000 satoshi
  at the default fee of 75000 and at balance 0, the amount \<open>2^63 - 1\<close> is positive,
  \<open>balance + amount + fee\<close> is far above the funding amount, and \<open>validateAmount\<close>
  returns \<open>2^63 - 1\<close> as the new balance with no error: \<open>newBalance + fee\<close> has
  wrapped around to a negative \<open>int64\<close>.
\<close>

theorem validateAmount_overflow:
  "validateAmount ((DefaultState None)\<lparr>FundingAmount := 1000000\<rparr>) 0x7FFFFFFFFFFFFFFF
     = (0x7FFFFFFFFFFFFFFF, None)
   \<and> sint (0x7FFFFFFFFFFFFFFF :: int64) = 2 ^ 63 - 1
   \<and> sint (FundingAmount ((DefaultState None)\<lparr>FundingAmount := 1000000\<rparr>))
       < sint (Balance ((DefaultState None)\<lparr>FundingAmount := 1000000\<rparr>))
         + sint (0x7FFFFFFFFFFFFFFF :: int64)
         + sint (Fee ((DefaultState None)\<lparr>FundingAmount := 1000000\<rparr>))"
  by (simp add: validateAmount_def DefaultState_def word_sle_eq word_sless_alt)

section \<open>The receiver's Send\<close>

lemmas op_simps = OP_FALSE_def OP_TRUE_def OP_IF_def OP_ELSE_def OP_ENDIF_def OP_DROP_def
  OP_DUP_def OP_EQUALVERIFY_def OP_HASH160_def OP_CHECKSIG_def OP_CHECKMULTISIG_def
  OP_CHECKSEQUENCEVERIFY_def SigHashAll_def

lemmas stub_simps = stub_env_def stub_state_def stub_receiver_def stub_sender_def
  stub_decode_def stub_execute_def DefaultState_def NewMsgTx_def AddTxIn_def AddTxOut_def
  StatusOpen_def StatusClosing_def StatusClosed_def StatusPreInfoGathered_def
  StatusNotStarted_def defaultTimeout_def

lemma stub_validateSenderSig:
  "validateSenderSig stub_env (stub_receiver st) balance [sg] =
     (if sg = ucast balance + 7 then None else Some (External ''signature check failed''))"
  by (simp add: validateSenderSig_def validateTx_def fundingTxScript_def stub_simps)

text \<open>
  What the receiver's \<open>Send\<close> does, in its own arithmetic. It returns no error exactly
  when the status is \<open>Open\<close>, \<open>validateAmount\<close> passes, and the validation of the
  sender's signature on the closure transaction at the new balance passes. Then it leaves
  the role with \<open>count\<close> incremented by 1, \<open>balance\<close> set to the \<open>int64\<close> sum of
  the old balance and the amount, and \<open>senderSig\<close> stored, every other field as before.
  When it returns an error, the role is unchanged.
\<close>

lemma Receiver_Send_int64:
  "(fst (Receiver_Send l r amount senderSig) = None \<longleftrightarrow>
      Status (Receiver.State r) = StatusOpen
      \<and> snd (validateAmount (Receiver.State r) amount) = None
      \<and> validateSenderSig l r (Balance (Receiver.State r) + amount) senderSig = None)
   \<and> (fst (Receiver_Send l r amount senderSig) = None \<longrightarrow>
        snd (Receiver_Send l r amount senderSig) =
          r\<lparr> Receiver.State :=
               (Receiver.State r)\<lparr> Count := Count (Receiver.State r) + 1,
                                     Balance := Balance (Receiver.State r) + amount,
                                     SharedState.SenderSig := senderSig \<rparr> \<rparr>)
   \<and> (fst (Receiver_Send l r amount senderSig) \<noteq> None \<longrightarrow>
        snd (Receiver_Send l r amount senderSig) = r)"
  by (auto simp: Receiver_Send_def validateAmount_def Let_def split: option.splits)

text \<open>
  The channel of \<open>stub_state\<close>, open and at balance 1, and a \<open>Send\<close> of
  \<open>2^63 - 1\<close> satoshi with the signature that \<open>stub_env\<close> accepts at the new
  balance.
\<close>

lemma stub_Send_overflow:
  "Receiver_Send stub_env
     ((stub_receiver StatusOpen)\<lparr> Receiver.State := (stub_state StatusOpen)\<lparr> Balance := 1 \<rparr> \<rparr>)
     0x7FFFFFFFFFFFFFFF [7]
   = (None,
      (stub_receiver StatusOpen)
        \<lparr> Receiver.State :=
            (stub_state StatusOpen)\<lparr> Balance := 0x8000000000000000, Count := 1,
                                        SharedState.SenderSig := [7] \<rparr> \<rparr>)"
  by (simp add: Receiver_Send_def validateAmount_def validateSenderSig_def validateTx_def
        fundingTxScript_def stub_simps word_sle_eq word_sless_alt)

text \<open>
  C1. The claim has a successful \<open>Send\<close> set \<open>balance\<close> to the old balance plus the
  amount, after \<open>validateAmount\<close> has passed. The code does not keep it when the sum
  overflows. On an open channel funded with 1000000 satoshi at fee 75000 and at balance
  1, a \<open>Send\<close> of \<open>2^63 - 1\<close> satoshi with a valid signature returns no error:
  \<open>validateAmount\<close> passes because \<open>balance + amount\<close> and \<open>balance + amount + fee\<close>
  have wrapped around. The balance it commits is \<open>-2^63\<close>; the old balance plus the
  amount is \<open>2^63\<close>.
\<close>

theorem Receiver_Send_overflow:
  "fst (Receiver_Send stub_env
     ((stub_receiver StatusOpen)\<lparr> Receiver.State := (stub_state StatusOpen)\<lparr> Balance := 1 \<rparr> \<rparr>)
     0x7FFFFFFFFFFFFFFF [7]) = None
   \<and> sint (Balance (Receiver.State (snd (Receiver_Send stub_env
         ((stub_receiver StatusOpen)\<lparr> Receiver.State := (stub_state StatusOpen)\<lparr> Balance := 1 \<rparr> \<rparr>)
         0x7FFFFFFFFFFFFFFF [7]))))
       = - (2 ^ 63)
   \<and> sint (Balance ((stub_state StatusOpen)\<lparr> Balance := 1 \<rparr>))
         + sint (0x7FFFFFFFFFFFFFFF :: int64)
       = 2 ^ 63"
  unfolding stub_Send_overflow
  by (simp add: stub_state_def DefaultState_def)

section \<open>The sender's PrepareSend\<close>

text \<open>
  C8. \<open>PrepareSend\<close> leaves the sender's role as it found it, whatever the amount and
  whether it returns a signature or an error. Of all the calls a sender can make, only
  \<open>SendAccepted\<close> changes \<open>balance\<close> or \<open>count\<close>.
\<close>

theorem PrepareSend_frame:
  "snd (PrepareSend l s amount) = s
   \<and> (Balance (Sender.State (Sender_call l c s)) \<noteq> Balance (Sender.State s)
        \<or> Count (Sender.State (Sender_call l c s)) \<noteq> Count (Sender.State s)
       \<longrightarrow> (\<exists>a. c = CallSendAccepted a))"
  by (cases c)
     (auto simp: PrepareSend_def ReceivedPubKey_def FundingTxMined_def Sender_CloseMined_def
        Refund_def Let_def split: option.splits prod.splits)

theorem PrepareSend_frame_witness:
  "snd (PrepareSend stub_env (stub_sender StatusOpen) 100000) = stub_sender StatusOpen
   \<and> Balance (Sender.State
        (Sender_call stub_env (CallSendAccepted 100000) (stub_sender StatusOpen))) = 100000
   \<and> Balance (Sender.State (stub_sender StatusOpen)) = 0
   \<and> (\<exists>a. CallSendAccepted 100000 = CallSendAccepted a)"
  using PrepareSend_frame [of stub_env "stub_sender StatusOpen" 100000
      "CallSendAccepted 100000"]
  by (simp add: SendAccepted_def stub_sender_def stub_state_def DefaultState_def)

section \<open>The receiver's Open\<close>

text \<open>
  C10. \<open>Open\<close> writes the funding transaction id, output index, amount and block height
  into the role before it validates the signature: the validation runs on the role that
  holds them, and they stand in the role that \<open>Open\<close> leaves in every case. When the
  validation fails, \<open>Open\<close> returns its error and leaves the role with the four new
  funding fields and nothing else changed: \<open>status\<close> and \<open>senderSig\<close> are as before.
\<close>

theorem Receiver_Open_writes_first:
  "fst (Receiver_Open l r txid vout amount height senderSig) =
     validateSenderSig l
       (r\<lparr> Receiver.State :=
            (Receiver.State r)\<lparr> FundingTxID := txid, FundingVout := vout,
                                  FundingAmount := amount, BlockHeight := height \<rparr> \<rparr>)
       0 senderSig
   \<and> FundingTxID (Receiver.State
        (snd (Receiver_Open l r txid vout amount height senderSig))) = txid
   \<and> FundingVout (Receiver.State
        (snd (Receiver_Open l r txid vout amount height senderSig))) = vout
   \<and> FundingAmount (Receiver.State
        (snd (Receiver_Open l r txid vout amount height senderSig))) = amount
   \<and> BlockHeight (Receiver.State
        (snd (Receiver_Open l r txid vout amount height senderSig))) = height
   \<and> (fst (Receiver_Open l r txid vout amount height senderSig) \<noteq> None \<longrightarrow>
        snd (Receiver_Open l r txid vout amount height senderSig) =
          r\<lparr> Receiver.State :=
               (Receiver.State r)\<lparr> FundingTxID := txid, FundingVout := vout,
                                     FundingAmount := amount, BlockHeight := height \<rparr> \<rparr>
        \<and> Status (Receiver.State
             (snd (Receiver_Open l r txid vout amount height senderSig)))
            = Status (Receiver.State r)
        \<and> SharedState.SenderSig (Receiver.State
             (snd (Receiver_Open l r txid vout amount height senderSig)))
            = SharedState.SenderSig (Receiver.State r))"
  by (auto simp: Receiver_Open_def Let_def split: option.splits)

lemma stub_Open_bad:
  "Receiver_Open stub_env (stub_receiver StatusPreInfoGathered) ''cd'' 2 500000 10 [8]
     = (Some (External ''signature check failed''),
        \<lparr> Receiver.State = (stub_state StatusPreInfoGathered)
            \<lparr> FundingTxID := ''cd'', FundingVout := 2, FundingAmount := 500000,
              BlockHeight := 10 \<rparr>,
          Receiver.PrivKey = Some [9] \<rparr>)"
  by (simp add: Receiver_Open_def validateSenderSig_def validateTx_def fundingTxScript_def
        stub_simps)

theorem Receiver_Open_writes_first_witness:
  "fst (Receiver_Open stub_env (stub_receiver StatusPreInfoGathered) ''cd'' 2 500000 10 [8])
     = Some (External ''signature check failed'')
   \<and> Receiver.State
        (snd (Receiver_Open stub_env (stub_receiver StatusPreInfoGathered) ''cd'' 2 500000 10 [8]))
     = (stub_state StatusPreInfoGathered)
         \<lparr> FundingTxID := ''cd'', FundingVout := 2, FundingAmount := 500000,
           BlockHeight := 10 \<rparr>
   \<and> Status (Receiver.State
        (snd (Receiver_Open stub_env (stub_receiver StatusPreInfoGathered) ''cd'' 2 500000 10 [8])))
     = Status (Receiver.State (stub_receiver StatusPreInfoGathered))"
  using Receiver_Open_writes_first [of stub_env "stub_receiver StatusPreInfoGathered"
      "''cd''" 2 500000 10 "[8]"]
  unfolding stub_Open_bad
  by (simp add: stub_receiver_def)

text \<open>
  Under \<open>stub_env\<close> the signature \<open>[7]\<close> is the one that validates at balance 0:
  \<open>Open\<close> with it returns no error whatever the status of the role and whatever the
  amount.
\<close>

lemma stub_Open_ok:
  "Receiver_Open stub_env (stub_receiver st) txid vout amount height [7]
     = (None,
        \<lparr> Receiver.State = (stub_state st)
            \<lparr> FundingTxID := txid, FundingVout := vout, FundingAmount := amount,
              BlockHeight := height, SharedState.SenderSig := [7], Status := StatusOpen \<rparr>,
          Receiver.PrivKey = Some [9] \<rparr>)"
  by (simp add: Receiver_Open_def validateSenderSig_def validateTx_def fundingTxScript_def
        stub_simps)

section \<open>The order of the statuses\<close>

text \<open>
  C4. The claim has the status move forward only, and \<open>Open\<close> succeed only at status
  \<open>PreInfoGathered\<close>. The receiver's \<open>Open\<close> does not read the status (its siblings
  \<open>Send\<close> and \<open>Close\<close> do): called with a valid signature on a channel that is
  \<open>Closing\<close>, or \<open>Closed\<close>, it returns no error and sets the status back to \<open>Open\<close>.
\<close>

theorem Receiver_Open_ignores_status:
  "fst (Receiver_Open stub_env (stub_receiver StatusClosing) ''ab'' 1 1000000 10 [7]) = None
   \<and> Status (Receiver.State (stub_receiver StatusClosing)) = StatusClosing
   \<and> Status (Receiver.State
        (snd (Receiver_Open stub_env (stub_receiver StatusClosing) ''ab'' 1 1000000 10 [7])))
       = StatusOpen
   \<and> fst (Receiver_Open stub_env (stub_receiver StatusClosed) ''ab'' 1 1000000 10 [7]) = None
   \<and> Status (Receiver.State (stub_receiver StatusClosed)) = StatusClosed
   \<and> Status (Receiver.State
        (snd (Receiver_Open stub_env (stub_receiver StatusClosed) ''ab'' 1 1000000 10 [7])))
       = StatusOpen
   \<and> StatusPreInfoGathered < StatusOpen \<and> StatusOpen < StatusClosing
   \<and> StatusClosing < StatusClosed"
  unfolding stub_Open_ok
  by (simp add: stub_receiver_def stub_state_def StatusOpen_def StatusClosing_def
        StatusClosed_def StatusPreInfoGathered_def)

section \<open>The capacity of the channel\<close>

text \<open>
  C5. The claim has \<open>0 \<le> balance\<close> and \<open>balance + fee \<le> fundingAmount\<close> hold after every
  transition into \<open>Open\<close>, \<open>Closing\<close> or \<open>Closed\<close>. The receiver's \<open>Open\<close> compares
  nothing with the funding amount (\<open>validateAmount\<close> does, for \<open>Send\<close>): on a channel at
  the default fee of 75000 it accepts a funding output of 1000 satoshi and leaves the
  status \<open>Open\<close> with \<open>balance + fee = 75000\<close> above \<open>fundingAmount = 1000\<close>. And the
  \<open>Send\<close> of \<open>2^63 - 1\<close> satoshi at balance 1, which \<open>validateAmount\<close> lets pass, leaves
  the status \<open>Open\<close> with a negative balance.
\<close>

theorem Receiver_Open_ignores_capacity:
  "fst (Receiver_Open stub_env (stub_receiver StatusPreInfoGathered) ''ab'' 1 1000 10 [7]) = None
   \<and> Status (Receiver.State
        (snd (Receiver_Open stub_env (stub_receiver StatusPreInfoGathered) ''ab'' 1 1000 10 [7])))
       = StatusOpen
   \<and> sint (FundingAmount (Receiver.State
        (snd (Receiver_Open stub_env (stub_receiver StatusPreInfoGathered) ''ab'' 1 1000 10 [7]))))
       < sint (Balance (Receiver.State
        (snd (Receiver_Open stub_env (stub_receiver StatusPreInfoGathered) ''ab'' 1 1000 10 [7]))))
       + sint (Fee (Receiver.State
        (snd (Receiver_Open stub_env (stub_receiver StatusPreInfoGathered) ''ab'' 1 1000 10 [7]))))
   \<and> fst (Receiver_Send stub_env
        ((stub_receiver StatusOpen)\<lparr> Receiver.State := (stub_state StatusOpen)\<lparr> Balance := 1 \<rparr> \<rparr>)
        0x7FFFFFFFFFFFFFFF [7]) = None
   \<and> Status (Receiver.State (snd (Receiver_Send stub_env
        ((stub_receiver StatusOpen)\<lparr> Receiver.State := (stub_state StatusOpen)\<lparr> Balance := 1 \<rparr> \<rparr>)
        0x7FFFFFFFFFFFFFFF [7]))) = StatusOpen
   \<and> sint (Balance (Receiver.State (snd (Receiver_Send stub_env
        ((stub_receiver StatusOpen)\<lparr> Receiver.State := (stub_state StatusOpen)\<lparr> Balance := 1 \<rparr> \<rparr>)
        0x7FFFFFFFFFFFFFFF [7])))) < 0"
  unfolding stub_Open_ok stub_Send_overflow
  by (simp add: stub_state_def DefaultState_def)

section \<open>The closure transaction\<close>

lemma sint_sub3:
  assumes "int64_range (sint a - sint b - sint c)"
  shows "sint (a - b - c :: int64) = sint a - sint b - sint c"
proof -
  have "sint (a - b - c) = signed_take_bit 63 (sint (a - b) - sint c)"
    by (simp add: sint_word_ariths)
  also have "\<dots> = signed_take_bit 63
                      (signed_take_bit 63 (sint a - sint b) - signed_take_bit 63 (sint c))"
    using sint_ge [of c] sint_lt [of c]
    by (simp add: sint_word_ariths signed_take_bit_int_eq_self)
  also have "\<dots> = signed_take_bit 63 (sint a - sint b - sint c)"
    by (simp only: signed_take_bit_diff)
  also have "\<dots> = sint a - sint b - sint c"
    using assms by (simp add: int64_range_def signed_take_bit_int_eq_self)
  finally show ?thesis .
qed

text \<open>
  What \<open>GetClosureTx\<close> builds when it returns a transaction, in its own arithmetic: one
  input that spends the funding output, then an output of \<open>balance\<close> to the P2PKH script
  of the receiver's key if \<open>balance > 0\<close>, then an output of the \<open>int64\<close> difference
  \<open>fundingAmount - balance - fee\<close> to the P2PKH script of the sender's key if that
  difference is positive as an \<open>int64\<close>.
\<close>

lemma GetClosureTx_int64:
  assumes "GetClosureTx l s = Inr tx"
  shows "\<exists>txid rp sp.
           NewHashFromStr l (FundingTxID s) = Inr txid
         \<and> TxIn tx = [\<lparr> PreviousOutPoint = \<lparr> Hash = txid, Index = FundingVout s \<rparr>,
                        SignatureScript = [], Sequence = 0 \<rparr>]
         \<and> (0 <s Balance s \<longrightarrow>
              (\<exists>k. ReceiverPubKey s = Some k \<and> PayToPubKeyHash l k = Inr rp))
         \<and> (0 <s FundingAmount s - Balance s - Fee s \<longrightarrow>
              (\<exists>k. SenderPubKey s = Some k \<and> PayToPubKeyHash l k = Inr sp))
         \<and> TxOut tx =
              (if 0 <s Balance s
               then [\<lparr> TxOut.Value = Balance s, PkScript = rp \<rparr>] else [])
              @ (if 0 <s FundingAmount s - Balance s - Fee s
                 then [\<lparr> TxOut.Value = FundingAmount s - Balance s - Fee s, PkScript = sp \<rparr>]
                 else [])"
  using assms
  by (auto simp: GetClosureTx_def spendFundingTx_def sendToAddress_def Let_def NewMsgTx_def
        AddTxIn_def AddTxOut_def split: sum.splits option.splits if_splits)

text \<open>
  As long as \<open>fundingAmount - balance - fee\<close> is in the range of \<open>int64\<close>, the values of
  the outputs are, in order, the positive ones of the two integers \<open>balance\<close> and
  \<open>fundingAmount - balance - fee\<close>.
\<close>

lemma GetClosureTx_in_range:
  assumes "GetClosureTx l s = Inr tx"
    and "int64_range (sint (FundingAmount s) - sint (Balance s) - sint (Fee s))"
  shows "map (\<lambda>out. sint (TxOut.Value out)) (TxOut tx) =
           filter (\<lambda>a. 0 < a)
             [sint (Balance s), sint (FundingAmount s) - sint (Balance s) - sint (Fee s)]"
proof -
  have d: "sint (FundingAmount s - Balance s - Fee s)
             = sint (FundingAmount s) - sint (Balance s) - sint (Fee s)"
    using assms(2) by (rule sint_sub3)
  show ?thesis
    using GetClosureTx_int64 [OF assms(1)] d by (auto simp: word_sless_alt)
qed


section \<open>The funding amount in satoshi\<close>

lemma bitlen_029e8: "bitlen 522417556774977500000000 = 79"
  by code_simp

text \<open>
  The \<open>float64\<close> nearest to 0.29 is \<open>5224175567749775 * 2^-54\<close>: it has 53 significant
  bits and lies within \<open>2^-55\<close>, half a unit in the last place, of 0.29.
\<close>

lemma f64_029:
  "bitlen 5224175567749775 = 53
   \<and> \<bar>f64_value (5224175567749775, - 54) - 29 / 100\<bar> \<le> 1 / 2 ^ 55"
proof -
  have "bitlen 5224175567749775 = 53"
    by code_simp
  moreover have "\<bar>f64_value (5224175567749775, - 54) - 29 / 100\<bar> \<le> 1 / 2 ^ 55"
    by (simp add: f64_value_def field_simps)
  ultimately show ?thesis by simp
qed

lemma stub_getTxOut_029:
  "getTxOut stub_env (stub_client (Some (stub_txout (5224175567749775, - 54) 1)))
     ''ab'' 1 ''2regtest''
     = Inr (28999999, 1, ''bb'')"
  by (simp add: getTxOut_def stub_env_def stub_txout_def stub_client_def f64_mul_def
        f64_1e8_def f64_round_def roundTiesEven_def Let_def bitlen_029e8
        int64_of_float64_def f64_trunc_def)

text \<open>
  C9. The claim has the funding amount be \<open>round(value * 1e8)\<close>, the nearest integer.
  \<open>getTxOut\<close> computes \<open>int64(txout.Value * 1e8)\<close> (under the comment \<open>yuck\<close>), and
  the conversion truncates. For a funding output of 0.29 BTC the node's value is the
  \<open>float64\<close> nearest to 0.29; its product with \<open>1e8\<close> is just below 29000000 and
  \<open>getTxOut\<close> returns 28999999 satoshi, where the nearest integer to \<open>value * 1e8\<close> is
  29000000.
\<close>

theorem getTxOut_truncates:
  "getTxOut stub_env (stub_client (Some (stub_txout (5224175567749775, - 54) 1)))
     ''ab'' 1 ''2regtest''
     = Inr (28999999, 1, ''bb'')
   \<and> round (f64_value (5224175567749775, - 54) * 100000000) = 29000000
   \<and> round (f64_value (f64_mul (5224175567749775, - 54) f64_1e8)) = 29000000"
proof -
  have "round (f64_value (5224175567749775, - 54) * 100000000) = 29000000"
    by (rule round_unique') (simp add: f64_value_def field_simps)
  moreover have "f64_mul (5224175567749775, - 54) f64_1e8 = (7784628223999999, - 28)"
    by (simp add: f64_mul_def f64_1e8_def f64_round_def roundTiesEven_def Let_def
          bitlen_029e8)
  moreover have "round (f64_value (7784628223999999, - 28)) = 29000000"
    by (rule round_unique') (simp add: f64_value_def field_simps)
  ultimately show ?thesis
    by (simp add: stub_getTxOut_029)
qed

section \<open>The refund transaction\<close>

lemma uint_ucast_timeout:
  assumes "0 \<le> sint (t :: int64)" and "sint t < 2 ^ 32"
  shows "uint (ucast t :: uint32) = sint t"
proof -
  have "uint t = take_bit 64 (sint t)"
    by (simp add: uint_sint)
  also have "\<dots> = sint t"
    using assms by (simp add: take_bit_int_eq_self)
  finally have "uint t = sint t" .
  moreover have "uint (ucast t :: uint32) = take_bit 32 (uint t)"
    by (simp add: unsigned_ucast_eq)
  ultimately show ?thesis
    using assms by (simp add: take_bit_int_eq_self)
qed

text \<open>
  The transaction that \<open>GetRefundTxSigned\<close> serializes, in the arithmetic of the code.
  The signature is made over the transaction as it stands before the signature script is
  set: with the output and the sequence, and an empty signature script.
\<close>

lemma refundTx_int64:
  assumes "refundTx l s privKey = Inr tx"
  shows "\<exists>txid spk pk script sig sigScript.
           NewHashFromStr l (FundingTxID s) = Inr txid
         \<and> SenderPubKey s = Some spk
         \<and> PayToPubKeyHash l spk = Inr pk
         \<and> fundingTxScript l (SenderPubKey s) (ReceiverPubKey s) (Timeout s) = Inr script
         \<and> RawTxInSignature l
              (tx\<lparr> TxIn := [\<lparr> PreviousOutPoint = \<lparr> Hash = txid, Index = FundingVout s \<rparr>,
                             SignatureScript = [], Sequence = ucast (Timeout s) \<rparr>] \<rparr>)
              0 script SigHashAll privKey = Inr sig
         \<and> Script l [AddData sig, AddData (ScriptAddress l spk), AddOp OP_FALSE,
                      AddData script] = Inr sigScript
         \<and> TxIn tx = [\<lparr> PreviousOutPoint = \<lparr> Hash = txid, Index = FundingVout s \<rparr>,
                        SignatureScript = sigScript, Sequence = ucast (Timeout s) \<rparr>]
         \<and> TxOut tx = [\<lparr> TxOut.Value = FundingAmount s - Fee s, PkScript = pk \<rparr>]"
  using assms
  by (auto simp: refundTx_def spendFundingTx_def sendToAddress_def GetFundingScript_def
        setSequence0_def setSignatureScript0_def Let_def NewMsgTx_def AddTxIn_def AddTxOut_def
        split: sum.splits option.splits list.splits prod.splits)

text \<open>
  The refund of the channel of \<open>stub_state\<close>, and the refund of that channel with the
  timeout \<open>2^32 + 3\<close> and the funding amount \<open>-2^63\<close>.
\<close>

lemma stub_Refund:
  "GetRefundTxSigned stub_env (stub_state StatusOpen) (Some [8])
     = Inr [2, 8, 1, 1, 2, 0, 19, 99, 2, 1, 2, 1, 3, 2, 174, 103, 3, 178, 117, 118, 169, 1,
            2, 136, 172, 104]"
  by (simp add: GetRefundTxSigned_def refundTx_def spendFundingTx_def sendToAddress_def
        GetFundingScript_def fundingTxScript_def setSequence0_def setSignatureScript0_def
        stub_simps op_simps)

lemma stub_refundTx_wide:
  "refundTx stub_env
     ((stub_state StatusOpen)\<lparr> Timeout := 0x100000003, FundingAmount := 0x8000000000000000 \<rparr>)
     (Some [8])
     = Inr \<lparr> TxVersion = 2,
             TxIn = [\<lparr> PreviousOutPoint = \<lparr> Hash = [97, 98], Index = 1 \<rparr>,
                      SignatureScript =
                        [2, 8, 1, 1, 2, 0, 19, 99, 2, 1, 2, 1, 3, 2, 174, 103, 3, 178, 117,
                         118, 169, 1, 2, 136, 172, 104],
                      Sequence = 3 \<rparr>],
             TxOut = [\<lparr> TxOut.Value = 9223372036854700808,
                       PkScript = [118, 169, 2, 136, 172] \<rparr>],
             LockTime = 0 \<rparr>"
  by (simp add: refundTx_def spendFundingTx_def sendToAddress_def
        GetFundingScript_def fundingTxScript_def setSequence0_def setSignatureScript0_def
        stub_simps op_simps)

text \<open>
  C6. The refund transaction that \<open>GetRefundTxSigned\<close> serializes has exactly one
  input, which spends \<open>(fundingTxID, fundingVout)\<close>, and exactly one output, which pays
  to the P2PKH script of the sender's public key. Its signature script is built from the
  signature, the sender's public key bytes, \<open>OP_FALSE\<close> and the redeem script, in this
  order, the signature being made with \<open>SigHashAll\<close> over the redeem script. The
  sequence of the input is \<open>uint32(timeout)\<close>, the low 32 bits of the timeout: it
  equals the timeout when \<open>0 \<le> timeout < 2^32\<close>. The output pays
  \<open>fundingAmount - fee\<close> satoshi when that difference is in the range of \<open>int64\<close>.
\<close>

theorem GetRefundTxSigned_spec:
  assumes "GetRefundTxSigned l s privKey = Inr raw"
  shows "\<exists>tx txid spk pk script sig sigScript.
           refundTx l s privKey = Inr tx
         \<and> Serialize l tx = Inr raw
         \<and> NewHashFromStr l (FundingTxID s) = Inr txid
         \<and> SenderPubKey s = Some spk
         \<and> PayToPubKeyHash l spk = Inr pk
         \<and> fundingTxScript l (SenderPubKey s) (ReceiverPubKey s) (Timeout s) = Inr script
         \<and> RawTxInSignature l
              (tx\<lparr> TxIn := [\<lparr> PreviousOutPoint = \<lparr> Hash = txid, Index = FundingVout s \<rparr>,
                             SignatureScript = [], Sequence = ucast (Timeout s) \<rparr>] \<rparr>)
              0 script SigHashAll privKey = Inr sig
         \<and> Script l [AddData sig, AddData (ScriptAddress l spk), AddOp OP_FALSE,
                      AddData script] = Inr sigScript
         \<and> TxIn tx = [\<lparr> PreviousOutPoint = \<lparr> Hash = txid, Index = FundingVout s \<rparr>,
                        SignatureScript = sigScript, Sequence = ucast (Timeout s) \<rparr>]
         \<and> (0 \<le> sint (Timeout s) \<and> sint (Timeout s) < 2 ^ 32 \<longrightarrow>
              map (\<lambda>i. uint (Sequence i)) (TxIn tx) = [sint (Timeout s)])
         \<and> length (TxOut tx) = 1
         \<and> map PkScript (TxOut tx) = [pk]
         \<and> (int64_range (sint (FundingAmount s) - sint (Fee s)) \<longrightarrow>
              map (\<lambda>out. sint (TxOut.Value out)) (TxOut tx)
                = [sint (FundingAmount s) - sint (Fee s)])"
proof -
  obtain tx where tx: "refundTx l s privKey = Inr tx" and ser: "Serialize l tx = Inr raw"
    using assms by (auto simp: GetRefundTxSigned_def split: sum.splits)
  from refundTx_int64 [OF tx] obtain txid spk pk script sig sigScript where
    f: "NewHashFromStr l (FundingTxID s) = Inr txid"
       "SenderPubKey s = Some spk"
       "PayToPubKeyHash l spk = Inr pk"
       "fundingTxScript l (SenderPubKey s) (ReceiverPubKey s) (Timeout s) = Inr script"
       "RawTxInSignature l
          (tx\<lparr> TxIn := [\<lparr> PreviousOutPoint = \<lparr> Hash = txid, Index = FundingVout s \<rparr>,
                         SignatureScript = [], Sequence = ucast (Timeout s) \<rparr>] \<rparr>)
          0 script SigHashAll privKey = Inr sig"
       "Script l [AddData sig, AddData (ScriptAddress l spk), AddOp OP_FALSE,
                  AddData script] = Inr sigScript"
       "TxIn tx = [\<lparr> PreviousOutPoint = \<lparr> Hash = txid, Index = FundingVout s \<rparr>,
                    SignatureScript = sigScript, Sequence = ucast (Timeout s) \<rparr>]"
       "TxOut tx = [\<lparr> TxOut.Value = FundingAmount s - Fee s, PkScript = pk \<rparr>]"
    by blast
  have sq: "0 \<le> sint (Timeout s) \<and> sint (Timeout s) < 2 ^ 32 \<longrightarrow>
              map (\<lambda>i. uint (Sequence i)) (TxIn tx) = [sint (Timeout s)]"
    by (simp add: f(7) uint_ucast_timeout)
  have am: "int64_range (sint (FundingAmount s) - sint (Fee s)) \<longrightarrow>
              map (\<lambda>out. sint (TxOut.Value out)) (TxOut tx)
                = [sint (FundingAmount s) - sint (Fee s)]"
    by (simp add: f(8) sint_sub64)
  have l1: "length (TxOut tx) = 1" and l2: "map PkScript (TxOut tx) = [pk]"
    by (simp_all add: f(8))
  show ?thesis
    apply (rule exI [of _ tx])
    apply (rule exI [of _ txid])
    apply (rule exI [of _ spk])
    apply (rule exI [of _ pk])
    apply (rule exI [of _ script])
    apply (rule exI [of _ sig])
    apply (rule exI [of _ sigScript])
    apply (intro conjI)
    apply (rule tx ser f sq am l1 l2)+
    done
qed

theorem GetRefundTxSigned_spec_witness:
  "GetRefundTxSigned stub_env (stub_state StatusOpen) (Some [8])
     = Inr [2, 8, 1, 1, 2, 0, 19, 99, 2, 1, 2, 1, 3, 2, 174, 103, 3, 178, 117, 118, 169, 1,
            2, 136, 172, 104]
   \<and> (\<exists>tx. refundTx stub_env (stub_state StatusOpen) (Some [8]) = Inr tx
          \<and> map (\<lambda>i. uint (Sequence i)) (TxIn tx) = [3]
          \<and> map PkScript (TxOut tx) = [[118, 169, 2, 136, 172]]
          \<and> map (\<lambda>out. sint (TxOut.Value out)) (TxOut tx) = [925000])"
  using GetRefundTxSigned_spec [OF stub_Refund] stub_Refund
  by (auto simp: stub_state_def stub_env_def DefaultState_def defaultTimeout_def
        int64_range_def)

text \<open>
  As the claim reads, for every state, it does not hold: the sequence is a \<open>uint32\<close>
  and the value of an output an \<open>int64\<close>. At the timeout \<open>2^32 + 3\<close> the sequence
  is 3, and at the funding amount \<open>-2^63\<close> and the fee 75000 the output pays
  \<open>2^63 - 75000\<close> satoshi.
\<close>

theorem GetRefundTxSigned_truncates:
  "refundTx stub_env
     ((stub_state StatusOpen)\<lparr> Timeout := 0x100000003, FundingAmount := 0x8000000000000000 \<rparr>)
     (Some [8])
     = Inr \<lparr> TxVersion = 2,
             TxIn = [\<lparr> PreviousOutPoint = \<lparr> Hash = [97, 98], Index = 1 \<rparr>,
                      SignatureScript =
                        [2, 8, 1, 1, 2, 0, 19, 99, 2, 1, 2, 1, 3, 2, 174, 103, 3, 178, 117,
                         118, 169, 1, 2, 136, 172, 104],
                      Sequence = 3 \<rparr>],
             TxOut = [\<lparr> TxOut.Value = 9223372036854700808,
                       PkScript = [118, 169, 2, 136, 172] \<rparr>],
             LockTime = 0 \<rparr>
   \<and> GetRefundTxSigned stub_env
     ((stub_state StatusOpen)\<lparr> Timeout := 0x100000003, FundingAmount := 0x8000000000000000 \<rparr>)
     (Some [8])
     = Inr [2, 8, 1, 1, 2, 0, 19, 99, 2, 1, 2, 1, 3, 2, 174, 103, 3, 178, 117, 118, 169, 1,
            2, 136, 172, 104]
   \<and> sint (Timeout ((stub_state StatusOpen)
        \<lparr> Timeout := 0x100000003, FundingAmount := 0x8000000000000000 \<rparr>)) = 2 ^ 32 + 3
   \<and> sint (FundingAmount ((stub_state StatusOpen)
        \<lparr> Timeout := 0x100000003, FundingAmount := 0x8000000000000000 \<rparr>))
       - sint (Fee ((stub_state StatusOpen)
        \<lparr> Timeout := 0x100000003, FundingAmount := 0x8000000000000000 \<rparr>))
       = - (2 ^ 63) - 75000"
  unfolding GetRefundTxSigned_def stub_refundTx_wide
  by (simp add: stub_env_def stub_state_def DefaultState_def)

end
